theory Spec2Isabelle
  imports Complex_Main
begin

section \<open>Python values used by the scraper\<close>

text \<open>
  A Python \<open>str\<close> is a sequence of Unicode code points, so it is modelled as a list of
  natural numbers (and not as a list of 8-bit characters, for which the non-ASCII white
  space of \<open>str.strip\<close> would be several elements long). \<open>lit\<close> turns an ASCII literal
  of the source into such a sequence.
\<close>

type_synonym pystr = "nat list"

definition lit :: "string \<Rightarrow> pystr" where
  "lit s = map of_char s"

text \<open>The line feed, the separator \<open>'\n'\<close> of \<open>item.text.split('\n')\<close>, and the comma.\<close>

definition newline :: nat where
  "newline = 10"


text \<open>
  \<open>s.split(sep)\<close> for a separator of one code point: the fields between the occurrences
  of \<open>sep\<close>, empty fields kept; the result is never empty (\<open>''.split(sep) == ['']\<close>).
\<close>

fun py_split :: "'a \<Rightarrow> 'a list \<Rightarrow> 'a list list" where
  "py_split sep [] = [[]]"
| "py_split sep (c # cs) =
     (if c = sep then [] # py_split sep cs
      else (case py_split sep cs of
              [] \<Rightarrow> [[c]]
            | w # ws \<Rightarrow> (c # w) # ws))"


text \<open>
  The white space of \<open>str.strip()\<close> (the code points for which \<open>str.isspace\<close> holds).
\<close>

definition is_space :: "nat \<Rightarrow> bool" where
  "is_space c =
     ((9 \<le> c \<and> c \<le> 13) \<or> (28 \<le> c \<and> c \<le> 32) \<or> c = 133 \<or> c = 160 \<or> c = 5760
      \<or> (8192 \<le> c \<and> c \<le> 8202) \<or> c = 8232 \<or> c = 8233 \<or> c = 8239 \<or> c = 8287
      \<or> c = 12288)"

definition py_strip :: "pystr \<Rightarrow> pystr" where
  "py_strip s = rev (dropWhile is_space (rev (dropWhile is_space s)))"






section \<open>Exceptions\<close>

text \<open>
  Every exception the modelled code can raise is a value. \<open>IndexError\<close> is Python's;
  the others are Selenium's (\<open>TimeoutException\<close> of \<open>WebDriverWait.until\<close>,
  \<open>NoSuchElementException\<close> of \<open>find_element\<close>, the faults of a click and of the session).
\<close>

datatype error =
    IndexError
  | TimeoutException
  | NoSuchElementException
  | ElementClickInterceptedException
  | StaleElementReferenceException
  | WebDriverException
  | ValueError
  | KeyboardInterrupt

text \<open>\<open>xs[i]\<close> for a non-negative index \<open>i\<close>: raises \<open>IndexError\<close> out of range.\<close>

definition getitem :: "'a list \<Rightarrow> nat \<Rightarrow> error + 'a" where
  "getitem xs i = (if i < length xs then Inr (xs ! i) else Inl IndexError)"

text \<open>Sequencing of two steps, the second skipped when the first raises.\<close>

definition bind_err :: "error + 'a \<Rightarrow> ('a \<Rightarrow> error + 'b) \<Rightarrow> error + 'b" where
  "bind_err m f = (case m of Inl e \<Rightarrow> Inl e | Inr v \<Rightarrow> f v)"

section \<open>Search URL builder: \<open>make_url\<close>\<close>


section \<open>Listing summary extractor: \<open>get_search_jobs\<close>\<close>

text \<open>
  A listing element (a Selenium \<open>WebElement\<close>) is modelled by what the code reads from
  it: its rendered text, \<open>item.text\<close>, and its link target, \<open>item.get_attribute("href")\<close>,
  which is \<open>None\<close> when the element has no such attribute.
\<close>

record element =
  elem_text :: pystr
  elem_href :: "pystr option"

text \<open>The dictionary \<open>output\<close>, one field per key.\<close>

record summary =
  title :: pystr
  category :: pystr
  location :: pystr
  position_type :: pystr
  salary :: pystr
  company :: pystr
  date :: pystr
  url :: "pystr option"

text \<open>
  The loop \<open>for item in tqdm(elements)\<close> with the list \<open>all_outputs\<close> it appends to
  (\<open>tqdm\<close> yields the elements in their order and shows a progress bar, which is not
  modelled). \<open>continue\<close> is the recursive call with \<open>all_outputs\<close> unchanged; each subscript of
  \<open>item_metadata\<close> may raise, and a conditional expression evaluates only the branch it
  selects.
\<close>

fun get_search_jobs_loop :: "element list \<Rightarrow> summary list \<Rightarrow> error + summary list" where
  "get_search_jobs_loop [] all_outputs = Inr all_outputs"
| "get_search_jobs_loop (item # rest) all_outputs =
     (let item_metadata = py_split newline (elem_text item);
          num_fields = length item_metadata
      in if num_fields < 6 then get_search_jobs_loop rest all_outputs
         else
           bind_err (getitem item_metadata 0) (\<lambda>title_v.
           bind_err (getitem item_metadata 1) (\<lambda>category_v.
           bind_err (getitem item_metadata 2) (\<lambda>location_v.
           bind_err (getitem item_metadata 3) (\<lambda>position_type_v.
           bind_err (if num_fields = 7 then getitem item_metadata 4
                     else Inr (lit ''Unknown'')) (\<lambda>salary_v.
           bind_err (if num_fields = 7 then getitem item_metadata 5
                     else getitem item_metadata 4) (\<lambda>company_v.
           bind_err (if num_fields = 7 then getitem item_metadata 6
                     else getitem item_metadata 5) (\<lambda>date_v.
           (let url_link = elem_href item;
                output = \<lparr>title = title_v, category = category_v,
                          location = location_v, position_type = position_type_v,
                          salary = salary_v, company = company_v, date = date_v,
                          url = url_link\<rparr>
            in get_search_jobs_loop rest (all_outputs @ [output]))))))))))"

definition get_search_jobs :: "element list \<Rightarrow> error + summary list" where
  "get_search_jobs elements = get_search_jobs_loop elements []"

text \<open>
  \<open>item_records\<close> is the extractor as the field tables describe it, without a loop and
  without subscripts that can fail: the records one element contributes to the output.
  The loop above is compared with it below.
\<close>

definition item_records :: "element \<Rightarrow> summary list" where
  "item_records item =
     (let fields = py_split newline (elem_text item)
      in if length fields < 6 then []
         else if length fields = 7 then
           [\<lparr>title = fields ! 0, category = fields ! 1, location = fields ! 2,
             position_type = fields ! 3, salary = fields ! 4, company = fields ! 5,
             date = fields ! 6, url = elem_href item\<rparr>]
         else
           [\<lparr>title = fields ! 0, category = fields ! 1, location = fields ! 2,
             position_type = fields ! 3, salary = lit ''Unknown'', company = fields ! 4,
             date = fields ! 5, url = elem_href item\<rparr>])"

text \<open>The invariant of the data model: a summary has a url, and it is not empty.\<close>

definition url_nonempty :: "summary \<Rightarrow> bool" where
  "url_nonempty r = (case url r of None \<Rightarrow> False | Some u \<Rightarrow> u \<noteq> [])"

definition href_nonempty :: "element \<Rightarrow> bool" where
  "href_nonempty e = (case elem_href e of None \<Rightarrow> False | Some u \<Rightarrow> u \<noteq> [])"

text \<open>
  Example listing elements: the three of the end-to-end scenario (seven fields, six
  fields, two fields), one with eight fields, and one without a link target.
\<close>

definition job_link :: "string \<Rightarrow> pystr option" where
  "job_link n = Some (lit ''https://www.workingnomads.com/jobs/'' @ lit n)"

definition backend_card :: element where
  "backend_card =
     \<lparr>elem_text = lit ''Backend Engineer'' @ [newline] @ lit ''Engineering'' @ [newline]
                   @ lit ''Remote/UK'' @ [newline] @ lit ''Full-time'' @ [newline]
                   @ lit ''$80k-$100k'' @ [newline] @ lit ''Acme Co'' @ [newline]
                   @ lit ''2024-01-01'',
      elem_href = job_link ''backend-engineer''\<rparr>"

definition analyst_card :: element where
  "analyst_card =
     \<lparr>elem_text = lit ''Data Analyst'' @ [newline] @ lit ''Data'' @ [newline]
                   @ lit ''Remote/USA'' @ [newline] @ lit ''Contract'' @ [newline]
                   @ lit ''BetaCorp'' @ [newline] @ lit ''2024-01-02'',
      elem_href = job_link ''data-analyst''\<rparr>"

definition malformed_card :: element where
  "malformed_card =
     \<lparr>elem_text = lit ''OnlyTitle'' @ [newline] @ lit ''OnlyCategory'',
      elem_href = job_link ''only-title''\<rparr>"

definition featured_card :: element where
  "featured_card =
     \<lparr>elem_text = lit ''ML Engineer'' @ [newline] @ lit ''Data'' @ [newline]
                   @ lit ''Remote/EU'' @ [newline] @ lit ''Full-time'' @ [newline]
                   @ lit ''$120k'' @ [newline] @ lit ''Gamma'' @ [newline]
                   @ lit ''2024-01-03'' @ [newline] @ lit ''Featured'',
      elem_href = job_link ''ml-engineer''\<rparr>"

definition no_href_card :: element where
  "no_href_card = analyst_card\<lparr>elem_href := None\<rparr>"

section \<open>The browser session\<close>

text \<open>
  Selenium is not part of the repository, so the session is a parameter: a state \<open>'s\<close>
  of the browser and the page it shows, and the operations the code calls on it. Each
  operation returns what the call returns or the exception it raises, and the state
  after the call (which goes on existing when the call raised).
  \<^item> \<open>drv_get\<close> is \<open>driver.get(url)\<close>;
  \<^item> \<open>until_clickable\<close> is \<open>WebDriverWait(driver, 5).until(EC.element_to_be_clickable(by))\<close>,
    which returns the element or raises \<open>TimeoutException\<close>;
  \<^item> \<open>click\<close> is \<open>element.click()\<close>;
  \<^item> \<open>sleep\<close> is \<open>time.sleep(sleep_time)\<close>, during which the page goes on loading;
  \<^item> \<open>find_element\<close> and \<open>find_elements\<close> are the driver's methods of these names.
\<close>

datatype locator = By_CLASS_NAME pystr | By_XPATH pystr

record 's driver =
  drv_get :: "pystr \<Rightarrow> 's \<Rightarrow> (error + unit) \<times> 's"
  until_clickable :: "locator \<Rightarrow> 's \<Rightarrow> (error + element) \<times> 's"
  click :: "element \<Rightarrow> 's \<Rightarrow> (error + unit) \<times> 's"
  sleep :: "real \<Rightarrow> 's \<Rightarrow> (error + unit) \<times> 's"
  find_element :: "locator \<Rightarrow> 's \<Rightarrow> (error + element) \<times> 's"
  find_elements :: "locator \<Rightarrow> 's \<Rightarrow> (error + element list) \<times> 's"

text \<open>
  The calls made on the session are recorded in order, each with the exception it raised
  if it raised one, so that the number of clicks of a run can be stated.
\<close>

datatype call =
    Get pystr
  | Until locator
  | Click element
  | Sleep real
  | FindElements locator

type_synonym event = "call \<times> error option"

definition raised :: "error + 'a \<Rightarrow> error option" where
  "raised r = (case r of Inl e \<Rightarrow> Some e | Inr v \<Rightarrow> None)"

definition show_more_by :: locator where
  "show_more_by = By_CLASS_NAME (lit ''show-more'')"

definition job_cards_by :: locator where
  "job_cards_by = By_XPATH (lit ''//a[contains(@class,'' @ [39] @ lit ''job-desktop'' @ [39] @ lit '')]'')"

section \<open>Pagination loader: \<open>load_elements\<close>\<close>

text \<open>
  The \<open>try\<close> block, which both loops of the source contain word for word (the printed
  messages apart; printing is not modelled): wait for the control, click it, sleep. The
  result is \<open>Inl e\<close> when a statement of the block raised \<open>e\<close>, and the rest of the block
  was skipped, and \<open>Inr ()\<close> when the block ran to its end.
\<close>

definition try_show_more :: "'s driver \<Rightarrow> real \<Rightarrow> 's \<Rightarrow> (error + unit) \<times> 's \<times> event list" where
  "try_show_more d sleep_time s =
     (case until_clickable d show_more_by s of
        (Inl e, s1) \<Rightarrow> (Inl e, s1, [(Until show_more_by, Some e)])
      | (Inr show_more, s1) \<Rightarrow>
          (case click d show_more s1 of
             (Inl e, s2) \<Rightarrow>
               (Inl e, s2, [(Until show_more_by, None), (Click show_more, Some e)])
           | (Inr u, s2) \<Rightarrow>
               (case sleep d sleep_time s2 of
                  (r, s3) \<Rightarrow>
                    (r, s3, [(Until show_more_by, None), (Click show_more, None),
                             (Sleep sleep_time, raised r)]))))"

text \<open>
  \<open>while True: try: ... except: ... break\<close>. The bare \<open>except\<close> catches every exception
  of the block and leaves the loop. The loop need not end, so the function is partial:
  \<open>None\<close> is a run that never leaves the loop.
\<close>

partial_function (option) full_loop ::
  "'s driver \<Rightarrow> real \<Rightarrow> 's \<Rightarrow> event list \<Rightarrow> ('s \<times> event list) option" where
  "full_loop d sleep_time s calls =
     (case try_show_more d sleep_time s of
        (Inl e, s1, cs) \<Rightarrow> Some (s1, calls @ cs)
      | (Inr u, s1, cs) \<Rightarrow> full_loop d sleep_time s1 (calls @ cs))"

text \<open>\<open>for i in range(clicks): try: ... except: ... break\<close>, by the iterations left.\<close>

fun bounded_loop :: "'s driver \<Rightarrow> real \<Rightarrow> nat \<Rightarrow> 's \<Rightarrow> event list \<Rightarrow> 's \<times> event list" where
  "bounded_loop d sleep_time 0 s calls = (s, calls)"
| "bounded_loop d sleep_time (Suc k) s calls =
     (case try_show_more d sleep_time s of
        (Inl e, s1, cs) \<Rightarrow> (s1, calls @ cs)
      | (Inr u, s1, cs) \<Rightarrow> bounded_loop d sleep_time k s1 (calls @ cs))"

text \<open>
  \<open>load_elements\<close>: the navigation, one of the two loops, the collection of the job
  cards. \<open>range(clicks)\<close> is empty for \<open>clicks \<le> 0\<close>. The result is \<open>None\<close> when the
  exhaustive loop never ends; otherwise the value returned or the exception that left
  the function, the state of the session and the calls made.
\<close>

definition load_elements ::
  "'s driver \<Rightarrow> pystr \<Rightarrow> bool \<Rightarrow> int \<Rightarrow> real \<Rightarrow> 's \<Rightarrow> ((error + element list) \<times> 's \<times> event list) option" where
  "load_elements d url_v full_load clicks sleep_time s =
     (case drv_get d url_v s of
        (Inl e, s0) \<Rightarrow> Some (Inl e, s0, [(Get url_v, Some e)])
      | (Inr u, s0) \<Rightarrow>
          (case (if full_load then full_loop d sleep_time s0 [(Get url_v, None)]
                 else Some (bounded_loop d sleep_time (nat clicks) s0 [(Get url_v, None)])) of
             None \<Rightarrow> None
           | Some (s1, calls) \<Rightarrow>
               (case find_elements d job_cards_by s1 of
                  (elements, s2) \<Rightarrow>
                    Some (elements, s2, calls @ [(FindElements job_cards_by, raised elements)]))))"

text \<open>What is counted and observed on a sequence of calls.\<close>

definition is_click :: "event \<Rightarrow> bool" where
  "is_click ev = (case fst ev of Click b \<Rightarrow> True | _ \<Rightarrow> False)"

definition is_until :: "event \<Rightarrow> bool" where
  "is_until ev = (case fst ev of Until b \<Rightarrow> True | _ \<Rightarrow> False)"

definition in_loop :: "event \<Rightarrow> bool" where
  "in_loop ev = (case fst ev of Until b \<Rightarrow> True | Click b \<Rightarrow> True | Sleep t \<Rightarrow> True | _ \<Rightarrow> False)"

definition quiet :: "event list \<Rightarrow> bool" where
  "quiet evs = list_all (\<lambda>ev. snd ev = None) evs"





section \<open>Listing detail fetcher: \<open>get_job_data\<close>\<close>

text \<open>
  The dictionary \<open>job_data\<close>; its keys \<open>url\<close> and \<open>keywords\<close> are the fields \<open>job_url\<close>
  and \<open>job_keywords\<close> here.
\<close>

record job_data =
  job_url :: pystr
  description :: pystr
  job_keywords :: "pystr list"

definition job_detail_by :: locator where
  "job_detail_by = By_CLASS_NAME (lit ''job-detail'')"

definition tag_by :: locator where
  "tag_by = By_CLASS_NAME (lit ''tag'')"

definition get_job_data :: "'s driver \<Rightarrow> pystr \<Rightarrow> 's \<Rightarrow> (error + job_data) \<times> 's" where
  "get_job_data d url_v s =
     (case drv_get d url_v s of
        (Inl e, s0) \<Rightarrow> (Inl e, s0)
      | (Inr u, s0) \<Rightarrow>
          (case find_element d job_detail_by s0 of
             (Inl e, s1) \<Rightarrow> (Inl e, s1)
           | (Inr detail, s1) \<Rightarrow>
               (let job_description = elem_text detail
                in case find_elements d tag_by s1 of
                     (Inl e, s2) \<Rightarrow> (Inl e, s2)
                   | (Inr tags, s2) \<Rightarrow>
                       (let keywords_v =
                              [elem_text e. e \<leftarrow> tags, py_strip (elem_text e) \<noteq> []]
                        in (Inr \<lparr>job_url = url_v, description = job_description,
                                  job_keywords = keywords_v\<rparr>, s2)))))"

text \<open>
  A session to run the fetcher on: a detail page with the description block \<open>detail\<close>,
  if it has one, and the tag labels \<open>tags\<close>.
\<close>

definition detail_site :: "element option \<Rightarrow> element list \<Rightarrow> unit driver" where
  "detail_site detail tags =
     \<lparr>drv_get = (\<lambda>u s. (Inr (), s)),
      until_clickable = (\<lambda>b s. (Inl TimeoutException, s)),
      click = (\<lambda>b s. (Inr (), s)),
      sleep = (\<lambda>t s. (Inr (), s)),
      find_element = (\<lambda>b s.
        (if b = job_detail_by
         then (case detail of None \<Rightarrow> Inl NoSuchElementException | Some el \<Rightarrow> Inr el)
         else Inl NoSuchElementException, s)),
      find_elements = (\<lambda>b s. (if b = tag_by then Inr tags else Inr [], s))\<rparr>"

definition label :: "pystr \<Rightarrow> element" where
  "label t = \<lparr>elem_text = t, elem_href = None\<rparr>"

section \<open>Strings: splitting, joining, decimal numerals\<close>










section \<open>The search URL\<close>



section \<open>The listing summaries\<close>

text \<open>
  The loop never raises: a subscript is evaluated only when it is in range. It returns
  the records of \<open>item_records\<close>, element by element, after those already collected.
\<close>

lemma get_search_jobs_loop_eq:
  "get_search_jobs_loop es acc = Inr (acc @ concat (map item_records es))"
proof (induction es arbitrary: acc)
  case Nil
  show ?case by simp
next
  case (Cons item rest)
  show ?case
    by (simp add: Cons.IH Let_def getitem_def bind_err_def item_records_def)
qed

lemma get_search_jobs_eq:
  "get_search_jobs es = Inr (concat (map item_records es))"
  by (simp add: get_search_jobs_def get_search_jobs_loop_eq)

text \<open>The example elements, split and extracted.\<close>

lemma split_backend:
  "py_split newline (elem_text backend_card) =
     [lit ''Backend Engineer'', lit ''Engineering'', lit ''Remote/UK'', lit ''Full-time'',
      lit ''$80k-$100k'', lit ''Acme Co'', lit ''2024-01-01'']"
  by (simp add: backend_card_def lit_def newline_def)

lemma split_analyst:
  "py_split newline (elem_text analyst_card) =
     [lit ''Data Analyst'', lit ''Data'', lit ''Remote/USA'', lit ''Contract'',
      lit ''BetaCorp'', lit ''2024-01-02'']"
  by (simp add: analyst_card_def lit_def newline_def)

lemma split_malformed:
  "py_split newline (elem_text malformed_card) = [lit ''OnlyTitle'', lit ''OnlyCategory'']"
  by (simp add: malformed_card_def lit_def newline_def)

lemma split_featured:
  "py_split newline (elem_text featured_card) =
     [lit ''ML Engineer'', lit ''Data'', lit ''Remote/EU'', lit ''Full-time'',
      lit ''$120k'', lit ''Gamma'', lit ''2024-01-03'', lit ''Featured'']"
  by (simp add: featured_card_def lit_def newline_def)

lemma records_backend:
  "item_records backend_card =
     [\<lparr>title = lit ''Backend Engineer'', category = lit ''Engineering'',
       location = lit ''Remote/UK'', position_type = lit ''Full-time'',
       salary = lit ''$80k-$100k'', company = lit ''Acme Co'',
       date = lit ''2024-01-01'', url = job_link ''backend-engineer''\<rparr>]"
  by (simp add: item_records_def split_backend) (simp add: backend_card_def)

lemma records_analyst:
  "item_records analyst_card =
     [\<lparr>title = lit ''Data Analyst'', category = lit ''Data'', location = lit ''Remote/USA'',
       position_type = lit ''Contract'', salary = lit ''Unknown'',
       company = lit ''BetaCorp'', date = lit ''2024-01-02'',
       url = job_link ''data-analyst''\<rparr>]"
  by (simp add: item_records_def split_analyst) (simp add: analyst_card_def)

lemma records_malformed: "item_records malformed_card = []"
  by (simp add: item_records_def split_malformed)

text \<open>
  C1. An element whose text splits at the line feeds into exactly seven fields gives one
  record, with the fields in the order title, category, location, position type, salary,
  company, date and the url of the element's link target. The record stands in the
  output between the records of the elements before and after it.
\<close>

theorem seven_fields:
  assumes "py_split newline (elem_text e) = [f0, f1, f2, f3, f4, f5, f6]"
  shows "\<exists>before after.
           get_search_jobs xs = Inr before \<and> get_search_jobs ys = Inr after \<and>
           get_search_jobs (xs @ e # ys) =
             Inr (before @ \<lparr>title = f0, category = f1, location = f2, position_type = f3,
                            salary = f4, company = f5, date = f6, url = elem_href e\<rparr> # after)"
  using assms by (simp add: get_search_jobs_eq item_records_def)

theorem seven_fields_witness:
  "py_split newline (elem_text backend_card) =
     [lit ''Backend Engineer'', lit ''Engineering'', lit ''Remote/UK'', lit ''Full-time'',
      lit ''$80k-$100k'', lit ''Acme Co'', lit ''2024-01-01'']
   \<and> get_search_jobs [analyst_card, backend_card, malformed_card] =
       Inr [\<lparr>title = lit ''Data Analyst'', category = lit ''Data'', location = lit ''Remote/USA'',
              position_type = lit ''Contract'', salary = lit ''Unknown'',
              company = lit ''BetaCorp'', date = lit ''2024-01-02'',
              url = job_link ''data-analyst''\<rparr>,
            \<lparr>title = lit ''Backend Engineer'', category = lit ''Engineering'',
              location = lit ''Remote/UK'', position_type = lit ''Full-time'',
              salary = lit ''$80k-$100k'', company = lit ''Acme Co'',
              date = lit ''2024-01-01'', url = job_link ''backend-engineer''\<rparr>]"
proof -
  have h: "elem_href backend_card = job_link ''backend-engineer''"
    by (simp add: backend_card_def)
  from seven_fields [OF split_backend, of "[analyst_card]" "[malformed_card]"]
  show ?thesis
    by (simp add: get_search_jobs_eq records_analyst records_malformed h split_backend)
qed

text \<open>
  C2. An element whose text splits into exactly six fields gives one record whose salary
  is \<open>"Unknown"\<close> and whose other fields are, in order, title, category, location,
  position type, company, date.
\<close>

theorem six_fields:
  assumes "py_split newline (elem_text e) = [f0, f1, f2, f3, f4, f5]"
  shows "\<exists>before after.
           get_search_jobs xs = Inr before \<and> get_search_jobs ys = Inr after \<and>
           get_search_jobs (xs @ e # ys) =
             Inr (before @ \<lparr>title = f0, category = f1, location = f2, position_type = f3,
                            salary = lit ''Unknown'', company = f4, date = f5,
                            url = elem_href e\<rparr> # after)"
  using assms by (simp add: get_search_jobs_eq item_records_def)

theorem six_fields_witness:
  "py_split newline (elem_text analyst_card) =
     [lit ''Data Analyst'', lit ''Data'', lit ''Remote/USA'', lit ''Contract'',
      lit ''BetaCorp'', lit ''2024-01-02'']
   \<and> get_search_jobs [backend_card, analyst_card] =
       Inr [\<lparr>title = lit ''Backend Engineer'', category = lit ''Engineering'',
              location = lit ''Remote/UK'', position_type = lit ''Full-time'',
              salary = lit ''$80k-$100k'', company = lit ''Acme Co'',
              date = lit ''2024-01-01'', url = job_link ''backend-engineer''\<rparr>,
            \<lparr>title = lit ''Data Analyst'', category = lit ''Data'', location = lit ''Remote/USA'',
              position_type = lit ''Contract'', salary = lit ''Unknown'',
              company = lit ''BetaCorp'', date = lit ''2024-01-02'',
              url = job_link ''data-analyst''\<rparr>]"
proof -
  have h: "elem_href analyst_card = job_link ''data-analyst''"
    by (simp add: analyst_card_def)
  from six_fields [OF split_analyst, of "[backend_card]" "[]"]
  show ?thesis
    by (simp add: get_search_jobs_eq records_backend h split_analyst)
qed

text \<open>
  C3. An element whose text splits into fewer than six fields gives no record and no
  exception: the elements before and after it are processed, and the output is the
  records of the former followed by the records of the latter, so the order of the
  elements that are kept is the order of the input.
\<close>

theorem short_text_skipped:
  assumes "length (py_split newline (elem_text e)) < 6"
  shows "\<exists>before after.
           get_search_jobs xs = Inr before \<and> get_search_jobs ys = Inr after \<and>
           get_search_jobs (xs @ e # ys) = Inr (before @ after)"
  using assms by (simp add: get_search_jobs_eq item_records_def)

theorem short_text_skipped_witness:
  "length (py_split newline (elem_text malformed_card)) < 6
   \<and> get_search_jobs [backend_card, malformed_card, analyst_card] =
       Inr [\<lparr>title = lit ''Backend Engineer'', category = lit ''Engineering'',
              location = lit ''Remote/UK'', position_type = lit ''Full-time'',
              salary = lit ''$80k-$100k'', company = lit ''Acme Co'',
              date = lit ''2024-01-01'', url = job_link ''backend-engineer''\<rparr>,
            \<lparr>title = lit ''Data Analyst'', category = lit ''Data'', location = lit ''Remote/USA'',
              position_type = lit ''Contract'', salary = lit ''Unknown'',
              company = lit ''BetaCorp'', date = lit ''2024-01-02'',
              url = job_link ''data-analyst''\<rparr>]"
proof -
  have h: "length (py_split newline (elem_text malformed_card)) < 6"
    by (simp add: split_malformed)
  from short_text_skipped [OF h, of "[backend_card]" "[analyst_card]"] h
  show ?thesis
    by (simp add: get_search_jobs_eq records_backend records_analyst)
qed

text \<open>
  C10. An element whose text splits into eight or more fields is kept and read with the
  six-field layout: the salary is \<open>"Unknown"\<close>, the company is the fifth field, the date
  the sixth, and the fields after the sixth are not read.
\<close>

theorem eight_or_more_fields:
  assumes "8 \<le> length (py_split newline (elem_text e))"
  shows "\<exists>before after.
           get_search_jobs xs = Inr before \<and> get_search_jobs ys = Inr after \<and>
           get_search_jobs (xs @ e # ys) =
             Inr (before @
                  \<lparr>title = py_split newline (elem_text e) ! 0,
                    category = py_split newline (elem_text e) ! 1,
                    location = py_split newline (elem_text e) ! 2,
                    position_type = py_split newline (elem_text e) ! 3,
                    salary = lit ''Unknown'',
                    company = py_split newline (elem_text e) ! 4,
                    date = py_split newline (elem_text e) ! 5,
                    url = elem_href e\<rparr> # after)"
  using assms by (simp add: get_search_jobs_eq item_records_def Let_def)

theorem eight_or_more_fields_witness:
  "8 \<le> length (py_split newline (elem_text featured_card))
   \<and> get_search_jobs [featured_card] =
       Inr [\<lparr>title = lit ''ML Engineer'', category = lit ''Data'', location = lit ''Remote/EU'',
              position_type = lit ''Full-time'', salary = lit ''Unknown'',
              company = lit ''$120k'', date = lit ''Gamma'',
              url = job_link ''ml-engineer''\<rparr>]"
proof -
  have h: "8 \<le> length (py_split newline (elem_text featured_card))"
    by (simp add: split_featured)
  have l: "elem_href featured_card = job_link ''ml-engineer''"
    by (simp add: featured_card_def)
  from eight_or_more_fields [OF h, of "[]" "[]"] h
  show ?thesis
    by (simp add: get_search_jobs_eq split_featured l)
qed

lemma url_item_records:
  "map url (item_records e) = (if 6 \<le> length (py_split newline (elem_text e)) then [elem_href e] else [])"
  by (simp add: item_records_def Let_def)

lemma url_records:
  "map url (concat (map item_records es)) =
     map elem_href (filter (\<lambda>e. 6 \<le> length (py_split newline (elem_text e))) es)"
  by (induction es) (simp_all add: url_item_records)

text \<open>
  C9, as the code has it. The url of every record is the link target of its element, as
  \<open>get_attribute("href")\<close> returned it: the urls of the output are the link targets of
  the elements that have six fields or more, in order. The extractor does not look at
  the value, so the urls are all present and non-empty when the link targets of the
  elements are.
\<close>

theorem url_is_href:
  assumes "get_search_jobs es = Inr rs"
  shows "map url rs = map elem_href (filter (\<lambda>e. 6 \<le> length (py_split newline (elem_text e))) es)
         \<and> (list_all href_nonempty es \<longrightarrow> list_all url_nonempty rs)"
proof -
  from assms have rs: "rs = concat (map item_records es)"
    by (simp add: get_search_jobs_eq)
  have u: "map url rs = map elem_href (filter (\<lambda>e. 6 \<le> length (py_split newline (elem_text e))) es)"
    by (simp add: rs url_records)
  have "list_all url_nonempty rs" if ok: "list_all href_nonempty es"
  proof -
    have "list_all (\<lambda>h. case h of None \<Rightarrow> False | Some v \<Rightarrow> v \<noteq> []) (map url rs)"
      unfolding u using ok by (auto simp: list_all_iff href_nonempty_def)
    then show ?thesis
      by (simp add: list_all_iff url_nonempty_def)
  qed
  with u show ?thesis by blast
qed

theorem url_is_href_witness:
  "get_search_jobs [backend_card, malformed_card] =
     Inr [\<lparr>title = lit ''Backend Engineer'', category = lit ''Engineering'',
            location = lit ''Remote/UK'', position_type = lit ''Full-time'',
            salary = lit ''$80k-$100k'', company = lit ''Acme Co'',
            date = lit ''2024-01-01'', url = job_link ''backend-engineer''\<rparr>]
   \<and> list_all href_nonempty [backend_card, malformed_card]
   \<and> list_all url_nonempty
       [\<lparr>title = lit ''Backend Engineer'', category = lit ''Engineering'',
          location = lit ''Remote/UK'', position_type = lit ''Full-time'',
          salary = lit ''$80k-$100k'', company = lit ''Acme Co'',
          date = lit ''2024-01-01'', url = job_link ''backend-engineer''\<rparr>]"
proof -
  have g: "get_search_jobs [backend_card, malformed_card] =
     Inr [\<lparr>title = lit ''Backend Engineer'', category = lit ''Engineering'',
            location = lit ''Remote/UK'', position_type = lit ''Full-time'',
            salary = lit ''$80k-$100k'', company = lit ''Acme Co'',
            date = lit ''2024-01-01'', url = job_link ''backend-engineer''\<rparr>]"
    by (simp add: get_search_jobs_eq records_backend records_malformed)
  have n: "list_all href_nonempty [backend_card, malformed_card]"
    by (simp add: href_nonempty_def backend_card_def malformed_card_def job_link_def lit_def)
  from url_is_href [OF g] n g show ?thesis by simp
qed

text \<open>
  C9 as stated fails: an element with six fields and no \<open>href\<close> attribute gives a record
  whose url is \<open>None\<close>.
\<close>

theorem url_nonempty_counterexample:
  "get_search_jobs [no_href_card] =
     Inr [\<lparr>title = lit ''Data Analyst'', category = lit ''Data'', location = lit ''Remote/USA'',
            position_type = lit ''Contract'', salary = lit ''Unknown'',
            company = lit ''BetaCorp'', date = lit ''2024-01-02'', url = None\<rparr>]
   \<and> \<not> url_nonempty
       \<lparr>title = lit ''Data Analyst'', category = lit ''Data'', location = lit ''Remote/USA'',
         position_type = lit ''Contract'', salary = lit ''Unknown'',
         company = lit ''BetaCorp'', date = lit ''2024-01-02'', url = None\<rparr>"
proof -
  have t: "elem_text no_href_card = elem_text analyst_card"
    by (simp add: no_href_card_def)
  show ?thesis
    by (simp add: get_search_jobs_eq item_records_def t split_analyst url_nonempty_def)
       (simp add: no_href_card_def)
qed

section \<open>The listing details\<close>

lemma keywords_comprehension:
  "[elem_text e. e \<leftarrow> tags, py_strip (elem_text e) \<noteq> []] =
     map elem_text (filter (\<lambda>e. py_strip (elem_text e) \<noteq> []) tags)"
  by (induction tags) simp_all

lemma dropWhile_all: "(\<forall>x\<in>set (dropWhile P xs). P x) \<longleftrightarrow> dropWhile P xs = []"
proof
  assume a: "\<forall>x\<in>set (dropWhile P xs). P x"
  show "dropWhile P xs = []"
  proof (rule ccontr)
    assume n: "dropWhile P xs \<noteq> []"
    then have "\<not> P (hd (dropWhile P xs))" by (rule hd_dropWhile)
    moreover from n have "hd (dropWhile P xs) \<in> set (dropWhile P xs)" by simp
    ultimately show False using a by blast
  qed
next
  assume e: "dropWhile P xs = []"
  show "\<forall>x\<in>set (dropWhile P xs). P x" unfolding e by simp
qed

text \<open>
  The stripped text is empty exactly when every code point of the text is white space.
\<close>

lemma py_strip_empty_iff: "py_strip t = [] \<longleftrightarrow> list_all is_space t"
proof -
  have "py_strip t = [] \<longleftrightarrow> (\<forall>x\<in>set (dropWhile is_space t). is_space x)"
    by (simp add: py_strip_def)
  also have "\<dots> \<longleftrightarrow> dropWhile is_space t = []"
    by (rule dropWhile_all)
  also have "\<dots> \<longleftrightarrow> list_all is_space t"
    by (simp add: list_all_iff)
  finally show ?thesis .
qed

text \<open>
  C7. When the navigation has succeeded and \<open>find_element\<close> finds no description block
  (it raises \<open>NoSuchElementException\<close>, or any other exception \<open>e\<close>), \<open>get_job_data\<close>
  ends with that exception: no dictionary is returned and no description is made up.
\<close>

theorem missing_description:
  assumes "drv_get d u s = (Inr (), s0)"
      and "find_element d job_detail_by s0 = (Inl e, s1)"
  shows "get_job_data d u s = (Inl e, s1)"
  using assms by (simp add: get_job_data_def)

theorem missing_description_witness:
  "drv_get (detail_site None [label (lit ''python'')]) (lit ''https://www.workingnomads.com/jobs/1'') ()
     = (Inr (), ())
   \<and> find_element (detail_site None [label (lit ''python'')]) job_detail_by ()
     = (Inl NoSuchElementException, ())
   \<and> get_job_data (detail_site None [label (lit ''python'')]) (lit ''https://www.workingnomads.com/jobs/1'') ()
     = (Inl NoSuchElementException, ())"
proof -
  have g: "drv_get (detail_site None [label (lit ''python'')]) (lit ''https://www.workingnomads.com/jobs/1'') ()
     = (Inr (), ())"
    by (simp add: detail_site_def)
  have f: "find_element (detail_site None [label (lit ''python'')]) job_detail_by ()
     = (Inl NoSuchElementException, ())"
    by (simp add: detail_site_def)
  from missing_description [OF g f] g f show ?thesis by simp
qed

text \<open>
  C8. The keywords are the texts of the tag elements whose stripped text is not empty,
  in the order of the page and with duplicates; the elements left out are exactly those
  whose text is white space only (or empty).
\<close>

theorem keywords_kept:
  assumes "drv_get d u s = (Inr (), s0)"
      and "find_element d job_detail_by s0 = (Inr detail, s1)"
      and "find_elements d tag_by s1 = (Inr tags, s2)"
  shows "get_job_data d u s =
           (Inr \<lparr>job_url = u, description = elem_text detail,
                 job_keywords = map elem_text (filter (\<lambda>e. py_strip (elem_text e) \<noteq> []) tags)\<rparr>,
            s2)
         \<and> filter (\<lambda>e. py_strip (elem_text e) \<noteq> []) tags
             = filter (\<lambda>e. \<not> list_all is_space (elem_text e)) tags"
proof -
  from assms have "get_job_data d u s =
           (Inr \<lparr>job_url = u, description = elem_text detail,
                 job_keywords = [elem_text e. e \<leftarrow> tags, py_strip (elem_text e) \<noteq> []]\<rparr>,
            s2)"
    by (simp add: get_job_data_def)
  moreover have "filter (\<lambda>e. py_strip (elem_text e) \<noteq> []) tags
             = filter (\<lambda>e. \<not> list_all is_space (elem_text e)) tags"
    by (simp add: py_strip_empty_iff)
  ultimately show ?thesis
    by (simp only: keywords_comprehension simp_thms)
qed

theorem keywords_kept_witness:
  "get_job_data
     (detail_site (Some (label (lit ''We build things.'')))
        [label (lit ''python''), label (lit ''  ''), label [], label (lit '' sql ''),
         label [160, 9], label (lit ''python'')])
     (lit ''https://www.workingnomads.com/jobs/1'') ()
   = (Inr \<lparr>job_url = lit ''https://www.workingnomads.com/jobs/1'',
           description = lit ''We build things.'',
           job_keywords = [lit ''python'', lit '' sql '', lit ''python'']\<rparr>, ())"
proof -
  let ?tags = "[label (lit ''python''), label (lit ''  ''), label [], label (lit '' sql ''),
         label [160, 9], label (lit ''python'')]"
  let ?d = "detail_site (Some (label (lit ''We build things.''))) ?tags"
  have g: "drv_get ?d (lit ''https://www.workingnomads.com/jobs/1'') () = (Inr (), ())"
    by (simp add: detail_site_def)
  have f: "find_element ?d job_detail_by () = (Inr (label (lit ''We build things.'')), ())"
    by (simp add: detail_site_def)
  have t: "find_elements ?d tag_by () = (Inr ?tags, ())"
    by (simp add: detail_site_def)
  have k: "map elem_text (filter (\<lambda>e. \<not> list_all is_space (elem_text e)) ?tags)
             = [lit ''python'', lit '' sql '', lit ''python'']"
    by (simp add: label_def lit_def is_space_def)
  from keywords_kept [OF g f t] k show ?thesis
    by (simp add: label_def)
qed

section \<open>The pagination loader\<close>





lemma try_show_more_not_quiet:
  "try_show_more d t s = (Inl e, s1, cs) \<Longrightarrow> \<not> quiet cs"
  by (auto simp: try_show_more_def quiet_def raised_def split: prod.splits sum.splits)









lemma outside_loop [simp]:
  "\<not> in_loop (Get u, x)" "\<not> in_loop (FindElements b, y)"
  "\<not> is_click (Get u, x)" "\<not> is_click (FindElements b, y)"
  "\<not> is_until (Get u, x)" "\<not> is_until (FindElements b, y)"
  by (simp_all add: in_loop_def is_click_def is_until_def)



lemma load_elements_full:
  "drv_get d u s = (Inr v, s0) \<Longrightarrow>
     full_loop d t s0 [(Get u, None)] = Some (s1, calls) \<Longrightarrow>
     find_elements d job_cards_by s1 = (r, s2) \<Longrightarrow>
     load_elements d u True clicks t s =
       Some (r, s2, calls @ [(FindElements job_cards_by, raised r)])"
  by (simp add: load_elements_def)

















end
